theory Spec2Isabelle
  imports Main
begin

section \<open>Values of the host language\<close>

text \<open>
  The class \<open>DockerCompose\<close> builds argument vectors for the \<open>docker-compose\<close> program and
  hands them to the process-spawning library. Its conditions are JavaScript truthiness
  tests, so an optional field is an \<open>option\<close> and each test is written out:
  an absent field, \<open>false\<close>, the empty string and the number \<open>0\<close> are falsy.
\<close>

definition truthy_boolean :: "bool option \<Rightarrow> bool" where
  "truthy_boolean b = (case b of None \<Rightarrow> False | Some v \<Rightarrow> v)"

definition truthy_string :: "string option \<Rightarrow> bool" where
  "truthy_string s = (case s of None \<Rightarrow> False | Some v \<Rightarrow> v \<noteq> [])"

definition truthy_number :: "int option \<Rightarrow> bool" where
  "truthy_number n = (case n of None \<Rightarrow> False | Some v \<Rightarrow> v \<noteq> 0)"

text \<open>
  Numbers are modelled as integers (the options \<open>timeout\<close> and \<open>scale\<close> count seconds and
  instances). \<open>number_toString\<close> is the decimal rendering that template literals,
  \<open>toString()\<close> and \<open>Array.prototype.join\<close> all apply to such a number; it agrees with
  JavaScript for integers of magnitude below \<open>10^21\<close>. Fractions, \<open>NaN\<close> and the
  infinities are outside the model.
\<close>

definition digit_char :: "nat \<Rightarrow> char" where
  "digit_char d = ''0123456789'' ! d"

fun nat_toString :: "nat \<Rightarrow> string" where
  "nat_toString n =
     (if n < 10 then [digit_char n]
      else nat_toString (n div 10) @ [digit_char (n mod 10)])"

declare nat_toString.simps [simp del]

definition number_toString :: "int \<Rightarrow> string" where
  "number_toString n =
     (if n < 0 then ''-'' @ nat_toString (nat (- n)) else nat_toString (nat n))"

text \<open>
  A value of a \<open>Record<string, number | string>\<close>. An object of that type is modelled by
  the list that \<open>Object.entries\<close> returns for it: its key and value pairs in enumeration
  order.
\<close>

datatype entry_value = Num int | Str string

fun value_toString :: "entry_value \<Rightarrow> string" where
  "value_toString (Num n) = number_toString n"
| "value_toString (Str s) = s"

type_synonym arguments_record = "(string \<times> entry_value) list"

section \<open>The session and its collaborators\<close>

text \<open>
  \<open>DockerComposeOptions['file']\<close> is one configuration, or an array of them; a
  configuration is a path or a structured \<open>Compose\<close> object, whose type \<open>'c\<close> is opaque here.
\<close>

datatype 'c file_entry = FilePath string | Inline 'c

datatype 'c file_source = Single "'c file_entry" | Many "'c file_entry list"

record 'c session =
  file_option :: "'c file_source"
  directory :: string
  projectName :: "string option"

datatype error = Error string

text \<open>
  A private member \<open>_x\<close> of the class is written \<open>x\<close>; the field \<open>_file\<close> is
  \<open>file_option\<close>, since \<open>file\<close> is a keyword.
\<close>

text \<open>
  What the class calls but does not define is a parameter of the model: the YAML
  serializer (which may throw), \<open>fs.writeFile\<close> (whose promise may reject), \<open>path.join\<close>,
  the outcome of awaiting a child process (its promise rejects when the process fails),
  and the environment variable read when the module is loaded.
\<close>

record 'c externals =
  yaml_dump :: "'c \<Rightarrow> error + string"
  fs_writeFile :: "string \<Rightarrow> string \<Rightarrow> error option"
  path_join :: "string \<Rightarrow> string \<Rightarrow> string"
  childProcess_await :: "nat \<Rightarrow> error option"
  env_DOCKER_COMPOSE_STDIO :: "string option"

text \<open>
  Effects are recorded in a trace, threaded through every asynchronous method. A child
  process is identified by the number of processes spawned before it.
\<close>

type_synonym execa_options = "string \<rightharpoonup> string"

datatype event =
    WriteFile string string
  | Execa string "string list" execa_options
  | Await nat

type_synonym world = "event list"

fun is_Execa :: "event \<Rightarrow> bool" where
  "is_Execa (Execa f as os) = True"
| "is_Execa (WriteFile p c) = False"
| "is_Execa (Await h) = False"

record docker_compose_result =
  childProcess :: nat

text \<open>
  The value an asynchronous method resolves to: \<open>Promise<void>\<close> resolves to no value,
  \<open>Promise<DockerComposeResult>\<close> to a result object.
\<close>

datatype resolved = Void | Result docker_compose_result

section \<open>Module-level definitions\<close>

definition DOCKER_COMPOSE_STDIO :: "'c externals \<Rightarrow> string" where
  "DOCKER_COMPOSE_STDIO ext =
     (case env_DOCKER_COMPOSE_STDIO ext of None \<Rightarrow> ''inherit'' | Some v \<Rightarrow> v)"

definition isProcessStdio :: "string \<Rightarrow> bool" where
  "isProcessStdio x = (x = ''inherit'' \<or> x = ''pipe'' \<or> x = ''ignore'')"

section \<open>Resolving the configuration files\<close>

text \<open>
  \<open>_getFile\<close> is asynchronous. Its promise is fulfilled with a path, or rejected: either
  before its first \<open>await\<close> (the serializer threw), or by the awaited write. A write is
  recorded in the trace when it is started, whether it then succeeds or fails.
\<close>

datatype 'a promise = Fulfilled 'a | RejectedSync error | RejectedAsync error

fun getFile ::
  "'c externals \<Rightarrow> 'c session \<Rightarrow> 'c file_entry \<Rightarrow> nat \<Rightarrow> world \<Rightarrow> string promise \<times> world"
where
  "getFile ext s (FilePath p) index w = (Fulfilled p, w)"
| "getFile ext s (Inline c) index w =
     (let temporaryYamlFilePath =
            path_join ext (directory s) (''docker-compose.'' @ nat_toString index @ ''.yml'')
      in case yaml_dump ext c of
           Inl e \<Rightarrow> (RejectedSync e, w)
         | Inr yamlString \<Rightarrow>
             (case fs_writeFile ext temporaryYamlFilePath yamlString of
                Some e \<Rightarrow> (RejectedAsync e, w @ [WriteFile temporaryYamlFilePath yamlString])
              | None \<Rightarrow>
                  (Fulfilled temporaryYamlFilePath,
                   w @ [WriteFile temporaryYamlFilePath yamlString])))"

text \<open>
  \<open>files.map(async (file, index) => this._getFile(file, index))\<close>: every element is
  started, in order, whatever happened to the elements before it.
\<close>

fun map_getFile ::
  "'c externals \<Rightarrow> 'c session \<Rightarrow> 'c file_entry list \<Rightarrow> nat \<Rightarrow> world
     \<Rightarrow> string promise list \<times> world"
where
  "map_getFile ext s [] index w = ([], w)"
| "map_getFile ext s (f # fs) index w =
     (case getFile ext s f index w of
        (p, w') \<Rightarrow>
          (case map_getFile ext s fs (Suc index) w' of
             (ps, w'') \<Rightarrow> (p # ps, w'')))"

fun first_RejectedSync :: "'a promise list \<Rightarrow> error option" where
  "first_RejectedSync [] = None"
| "first_RejectedSync (RejectedSync e # ps) = Some e"
| "first_RejectedSync (p # ps) = first_RejectedSync ps"

fun first_RejectedAsync :: "'a promise list \<Rightarrow> error option" where
  "first_RejectedAsync [] = None"
| "first_RejectedAsync (RejectedAsync e # ps) = Some e"
| "first_RejectedAsync (p # ps) = first_RejectedAsync ps"

fun fulfilled_values :: "'a promise list \<Rightarrow> 'a list" where
  "fulfilled_values [] = []"
| "fulfilled_values (Fulfilled v # ps) = v # fulfilled_values ps"
| "fulfilled_values (p # ps) = fulfilled_values ps"

text \<open>
  \<open>Promise.all\<close> rejects with the rejection that happens first. A serializer error is
  raised while the promises are being created, so it precedes every write error; among
  write errors the model takes the writes to finish in the order they were started.
\<close>

definition Promise_all :: "'a promise list \<Rightarrow> error + 'a list" where
  "Promise_all ps =
     (case first_RejectedSync ps of
        Some e \<Rightarrow> Inl e
      | None \<Rightarrow>
          (case first_RejectedAsync ps of
             Some e \<Rightarrow> Inl e
           | None \<Rightarrow> Inr (fulfilled_values ps)))"

text \<open>\<open>Array.isArray(this._file) ? this._file : [ this._file ]\<close>.\<close>

definition normalized_files :: "'c session \<Rightarrow> 'c file_entry list" where
  "normalized_files s = (case file_option s of Many fs \<Rightarrow> fs | Single f \<Rightarrow> [f])"

definition getFiles ::
  "'c externals \<Rightarrow> 'c session \<Rightarrow> world \<Rightarrow> (error + string list) \<times> world"
where
  "getFiles ext s w =
     (case map_getFile ext s (normalized_files s) 0 w of
        (ps, w') \<Rightarrow> (Promise_all ps, w'))"

definition getFilesArguments ::
  "'c externals \<Rightarrow> 'c session \<Rightarrow> world \<Rightarrow> (error + string list) \<times> world"
where
  "getFilesArguments ext s w =
     (case getFiles ext s w of
        (Inl e, w') \<Rightarrow> (Inl e, w')
      | (Inr files, w') \<Rightarrow> (Inr (concat (map (\<lambda>file. [''--file'', file]) files)), w'))"

definition getGlobalArguments ::
  "'c externals \<Rightarrow> 'c session \<Rightarrow> world \<Rightarrow> (error + string list) \<times> world"
where
  "getGlobalArguments ext s w =
     (case getFilesArguments ext s w of
        (Inl e, w') \<Rightarrow> (Inl e, w')
      | (Inr filesArguments, w') \<Rightarrow>
          (Inr ((if truthy_string (projectName s)
                 then [''--project-name'', the (projectName s)] else [])
                @ filesArguments), w'))"

definition joinArgumentsRecord :: "string \<Rightarrow> string \<Rightarrow> arguments_record \<Rightarrow> string list" where
  "joinArgumentsRecord option separator entries =
     concat (map (\<lambda>(k, v). [option, k @ separator @ value_toString v]) entries)"

section \<open>Spawning\<close>

text \<open>
  \<open>_execa\<close> writes a debug line and calls the spawning library: the spawn is recorded in
  the trace and the new child process is returned.
\<close>

definition execa :: "string \<Rightarrow> string list \<Rightarrow> execa_options \<Rightarrow> world \<Rightarrow> nat \<times> world" where
  "execa program args options w = (length (filter is_Execa w), w @ [Execa program args options])"

text \<open>
  The object literal \<open>{ stdio: ..., ...options }\<close> that \<open>command\<close> passes on: the caller's
  options, when given, override the default.
\<close>

definition spawn_options :: "'c externals \<Rightarrow> execa_options option \<Rightarrow> execa_options" where
  "spawn_options ext options =
     [''stdio'' \<mapsto>
        (if isProcessStdio (DOCKER_COMPOSE_STDIO ext)
         then DOCKER_COMPOSE_STDIO ext else ''inherit'')]
     ++ (case options of None \<Rightarrow> Map.empty | Some os \<Rightarrow> os)"

definition command ::
  "'c externals \<Rightarrow> 'c session \<Rightarrow> string list \<Rightarrow> execa_options option \<Rightarrow> world
     \<Rightarrow> (error + docker_compose_result) \<times> world"
where
  "command ext s args options w =
     (case getGlobalArguments ext s w of
        (Inl e, w') \<Rightarrow> (Inl e, w')
      | (Inr globalArguments, w') \<Rightarrow>
          (case execa ''docker-compose'' (globalArguments @ args)
                  (spawn_options ext options) w' of
             (child, w'') \<Rightarrow> (Inr \<lparr>childProcess = child\<rparr>, w'')))"

text \<open>\<open>await childProcess\<close>: the wait is recorded, and a failed process rejects.\<close>

definition await_childProcess ::
  "'c externals \<Rightarrow> nat \<Rightarrow> world \<Rightarrow> (error + unit) \<times> world"
where
  "await_childProcess ext child w =
     (case childProcess_await ext child of
        Some e \<Rightarrow> (Inl e, w @ [Await child])
      | None \<Rightarrow> (Inr (), w @ [Await child]))"

section \<open>The options of the subcommands\<close>

text \<open>
  Every field of an options object is optional. \<open>or_default\<close> is the default that a
  destructuring pattern such as \<open>detach = true\<close> gives to an absent field, and
  \<open>spread_if\<close> is the element \<open>...(condition ? [ tokens ] : [])\<close> of an array literal.
\<close>

definition or_default :: "'a \<Rightarrow> 'a option \<Rightarrow> 'a" where
  "or_default d x = (case x of None \<Rightarrow> d | Some v \<Rightarrow> v)"

definition spread_if :: "bool \<Rightarrow> string list \<Rightarrow> string list" where
  "spread_if condition tokens = (if condition then tokens else [])"

datatype pull_mode = Always | Missing | Never

fun pull_toString :: "pull_mode \<Rightarrow> string" where
  "pull_toString Always = ''always''"
| "pull_toString Missing = ''missing''"
| "pull_toString Never = ''never''"

datatype rmi_mode = Local | All

fun rmi_toString :: "rmi_mode \<Rightarrow> string" where
  "rmi_toString Local = ''local''"
| "rmi_toString All = ''all''"

record up_options =
  abortOnContainerExit :: "bool option"
  alwaysRecreateDeps :: "bool option"
  attach :: "string list option"
  attachDependencies :: "bool option"
  build :: "bool option"
  detach :: "bool option"
  exitCodeFrom :: "string option"
  forceRecreate :: "bool option"
  noAttach :: "string list option"
  noBuild :: "bool option"
  noDeps :: "bool option"
  noLogPrefix :: "bool option"
  noRecreate :: "bool option"
  noStart :: "bool option"
  pull :: "pull_mode option"
  quietPull :: "bool option"
  removeOrphans :: "bool option"
  renewAnonVolumes :: "bool option"
  scale :: "arguments_record option"
  timeout :: "int option"
  timestamps :: "bool option"
  wait :: "bool option"

text \<open>The options object \<open>{}\<close> of \<open>up\<close>.\<close>

definition up_no_options :: up_options where
  "up_no_options =
     \<lparr>abortOnContainerExit = None, alwaysRecreateDeps = None, attach = None,
      attachDependencies = None, build = None, detach = None, exitCodeFrom = None,
      forceRecreate = None, noAttach = None, noBuild = None, noDeps = None,
      noLogPrefix = None, noRecreate = None, noStart = None, pull = None,
      quietPull = None, removeOrphans = None, renewAnonVolumes = None, scale = None,
      timeout = None, timestamps = None, wait = None\<rparr>"

text \<open>The array literal that \<open>up\<close> passes to \<open>command\<close>.\<close>

definition up_arguments :: "up_options \<Rightarrow> string list" where
  "up_arguments opts =
     [''up'']
     @ spread_if (truthy_boolean (abortOnContainerExit opts)) [''--abort-on-container-exit'']
     @ spread_if (truthy_boolean (alwaysRecreateDeps opts)) [''--always-recreate-deps'']
     @ map (\<lambda>service. ''--attach='' @ service) (or_default [] (attach opts))
     @ spread_if (truthy_boolean (attachDependencies opts)) [''--attach-dependencies'']
     @ spread_if (truthy_boolean (up_options.build opts)) [''--build'']
     @ spread_if (or_default True (up_options.detach opts)) [''--detach'']
     @ spread_if (truthy_string (exitCodeFrom opts))
         [''--exit-code-from='' @ the (exitCodeFrom opts)]
     @ spread_if (truthy_boolean (forceRecreate opts)) [''--force-recreate'']
     @ map (\<lambda>service. ''--no-attach='' @ service) (or_default [] (noAttach opts))
     @ spread_if (truthy_boolean (noBuild opts)) [''--no-build'']
     @ spread_if (truthy_boolean (up_options.noDeps opts)) [''--no-deps'']
     @ spread_if (truthy_boolean (noLogPrefix opts)) [''--no-log-prefix'']
     @ spread_if (truthy_boolean (noRecreate opts)) [''--no-recreate'']
     @ spread_if (truthy_boolean (noStart opts)) [''--no-start'']
     @ (case pull opts of None \<Rightarrow> [] | Some mode \<Rightarrow> [''--pull='' @ pull_toString mode])
     @ spread_if (truthy_boolean (up_options.quietPull opts)) [''--quiet-pull'']
     @ spread_if (truthy_boolean (up_options.removeOrphans opts)) [''--remove-orphans'']
     @ spread_if (truthy_boolean (renewAnonVolumes opts)) [''--renew-anon-volumes'']
     @ joinArgumentsRecord ''--scale'' ''='' (or_default [] (scale opts))
     @ spread_if (truthy_number (up_options.timeout opts))
         [''--timeout='' @ number_toString (the (up_options.timeout opts))]
     @ spread_if (truthy_boolean (timestamps opts)) [''--timestamps'']
     @ spread_if (truthy_boolean (wait opts)) [''--wait'']"

definition up ::
  "'c externals \<Rightarrow> 'c session \<Rightarrow> up_options \<Rightarrow> execa_options option \<Rightarrow> world
     \<Rightarrow> (error + resolved) \<times> world"
where
  "up ext s opts execaOptions w =
     (case command ext s (up_arguments opts) execaOptions w of
        (Inl e, w') \<Rightarrow> (Inl e, w')
      | (Inr r, w') \<Rightarrow>
          (if or_default True (up_options.detach opts)
           then (case await_childProcess ext (childProcess r) w' of
                   (Inl e, w'') \<Rightarrow> (Inl e, w'')
                 | (Inr u, w'') \<Rightarrow> (Inr (Result \<lparr>childProcess = childProcess r\<rparr>), w''))
           else (Inr (Result \<lparr>childProcess = childProcess r\<rparr>), w')))"

record run_options =
  build :: "bool option"
  detach :: "bool option"
  entrypoint :: "string option"
  env :: "arguments_record option"
  interactive :: "bool option"
  label :: "arguments_record option"
  name :: "string option"
  noTTY :: "bool option"
  noDeps :: "bool option"
  publish :: "arguments_record option"
  quietPull :: "bool option"
  removeOrphans :: "bool option"
  rm :: "bool option"
  servicePorts :: "bool option"
  useAliases :: "bool option"
  user :: "string option"
  volume :: "arguments_record option"
  workdir :: "string option"

text \<open>The options object \<open>{}\<close> of \<open>run\<close>.\<close>

definition run_no_options :: run_options where
  "run_no_options =
     \<lparr>run_options.build = None, run_options.detach = None, entrypoint = None, env = None,
      interactive = None, label = None, name = None, noTTY = None,
      run_options.noDeps = None, publish = None, run_options.quietPull = None,
      run_options.removeOrphans = None, rm = None, servicePorts = None, useAliases = None,
      user = None, volume = None, workdir = None\<rparr>"

text \<open>The array literal that \<open>run\<close> passes to \<open>command\<close>.\<close>

definition run_arguments ::
  "string \<Rightarrow> string option \<Rightarrow> string list \<Rightarrow> run_options \<Rightarrow> string list"
where
  "run_arguments service cmd args opts =
     [''run'']
     @ spread_if (truthy_boolean (run_options.build opts)) [''--build'']
     @ spread_if (or_default True (run_options.detach opts)) [''--detach'']
     @ spread_if (truthy_string (entrypoint opts)) [''--entrypoint'', the (entrypoint opts)]
     @ joinArgumentsRecord ''--env'' ''='' (or_default [] (env opts))
     @ spread_if (truthy_boolean (interactive opts)) [''--interactive'']
     @ joinArgumentsRecord ''--label'' ''='' (or_default [] (label opts))
     @ spread_if (truthy_string (name opts)) [''--name'', the (name opts)]
     @ spread_if (truthy_boolean (noTTY opts)) [''--no-TTY'']
     @ spread_if (truthy_boolean (run_options.noDeps opts)) [''--no-deps'']
     @ joinArgumentsRecord ''--publish'' '':'' (or_default [] (publish opts))
     @ spread_if (truthy_boolean (run_options.quietPull opts)) [''--quiet-pull'']
     @ spread_if (truthy_boolean (run_options.removeOrphans opts)) [''--remove-orphans'']
     @ spread_if (truthy_boolean (run_options.rm opts)) [''--rm'']
     @ spread_if (truthy_boolean (servicePorts opts)) [''--service-ports'']
     @ spread_if (truthy_boolean (useAliases opts)) [''--use-aliases'']
     @ spread_if (truthy_string (user opts)) [''--user'', the (user opts)]
     @ joinArgumentsRecord ''--volume'' '':'' (or_default [] (volume opts))
     @ spread_if (truthy_string (workdir opts)) [''--workdir'', the (workdir opts)]
     @ [service]
     @ spread_if (truthy_string cmd) [the cmd]
     @ args"

text \<open>
  \<open>run\<close>, \<open>rm\<close> and \<open>down\<close> are declared \<open>Promise<void>\<close>: they await the child process
  and end without a \<open>return\<close> statement.
\<close>

definition run ::
  "'c externals \<Rightarrow> 'c session \<Rightarrow> string \<Rightarrow> string option \<Rightarrow> string list \<Rightarrow> run_options
     \<Rightarrow> execa_options option \<Rightarrow> world \<Rightarrow> (error + resolved) \<times> world"
where
  "run ext s service cmd args opts execaOptions w =
     (case command ext s (run_arguments service cmd args opts) execaOptions w of
        (Inl e, w') \<Rightarrow> (Inl e, w')
      | (Inr r, w') \<Rightarrow>
          (case await_childProcess ext (childProcess r) w' of
             (Inl e, w'') \<Rightarrow> (Inl e, w'')
           | (Inr u, w'') \<Rightarrow> (Inr Void, w'')))"

record rm_options =
  stop :: "bool option"
  force :: "bool option"
  volumes :: "bool option"

definition rm_arguments :: "rm_options \<Rightarrow> string list" where
  "rm_arguments opts =
     [''rm'']
     @ spread_if (truthy_boolean (stop opts)) [''--stop'']
     @ spread_if (truthy_boolean (force opts)) [''--force'']
     @ spread_if (truthy_boolean (rm_options.volumes opts)) [''--volumes'']"

definition rm ::
  "'c externals \<Rightarrow> 'c session \<Rightarrow> rm_options \<Rightarrow> execa_options option \<Rightarrow> world
     \<Rightarrow> (error + resolved) \<times> world"
where
  "rm ext s opts execaOptions w =
     (case command ext s (rm_arguments opts) execaOptions w of
        (Inl e, w') \<Rightarrow> (Inl e, w')
      | (Inr r, w') \<Rightarrow>
          (case await_childProcess ext (childProcess r) w' of
             (Inl e, w'') \<Rightarrow> (Inl e, w'')
           | (Inr u, w'') \<Rightarrow> (Inr Void, w'')))"

record down_options =
  removeOrphans :: "bool option"
  rmi :: "rmi_mode option"
  timeout :: "int option"
  volumes :: "string option"

definition down_arguments :: "down_options \<Rightarrow> string list" where
  "down_arguments opts =
     [''down'']
     @ spread_if (truthy_boolean (down_options.removeOrphans opts)) [''--remove-orphans'']
     @ (case rmi opts of None \<Rightarrow> [] | Some mode \<Rightarrow> [''--rmi'', rmi_toString mode])
     @ spread_if (truthy_number (down_options.timeout opts))
         [''--timeout'', number_toString (the (down_options.timeout opts))]
     @ spread_if (truthy_string (down_options.volumes opts))
         [''--volumes'', the (down_options.volumes opts)]"

definition down ::
  "'c externals \<Rightarrow> 'c session \<Rightarrow> down_options \<Rightarrow> execa_options option \<Rightarrow> world
     \<Rightarrow> (error + resolved) \<times> world"
where
  "down ext s opts options w =
     (case command ext s (down_arguments opts) options w of
        (Inl e, w') \<Rightarrow> (Inl e, w')
      | (Inr r, w') \<Rightarrow>
          (case await_childProcess ext (childProcess r) w' of
             (Inl e, w'') \<Rightarrow> (Inl e, w'')
           | (Inr u, w'') \<Rightarrow> (Inr Void, w'')))"

section \<open>The class of \<^verbatim>\<open>src/index.ts\<close>\<close>

text \<open>
  \<^verbatim>\<open>src/index.ts\<close> holds a smaller variant of the same class: its constructor, \<open>rm\<close> and
  the private file members are the same, \<open>_dockerCompose\<close> has the body of \<open>command\<close>,
  \<open>down\<close> takes no options, and \<open>up\<close> takes only \<open>detach\<close> and \<open>scale\<close>, with no default
  for \<open>detach\<close>. Only that \<open>up\<close> is modelled again.
\<close>

record index_up_options =
  detach :: "bool option"
  scale :: "arguments_record option"

definition getScaleArguments :: "arguments_record \<Rightarrow> string list" where
  "getScaleArguments entries =
     concat (map (\<lambda>(k, v). [''--scale'', k @ ''='' @ value_toString v]) entries)"

definition dockerCompose ::
  "'c externals \<Rightarrow> 'c session \<Rightarrow> string list \<Rightarrow> execa_options option \<Rightarrow> world
     \<Rightarrow> (error + docker_compose_result) \<times> world"
where
  "dockerCompose ext s args options w =
     (case getGlobalArguments ext s w of
        (Inl e, w') \<Rightarrow> (Inl e, w')
      | (Inr globalArguments, w') \<Rightarrow>
          (case execa ''docker-compose'' (globalArguments @ args)
                  (spawn_options ext options) w' of
             (child, w'') \<Rightarrow> (Inr \<lparr>childProcess = child\<rparr>, w'')))"

definition index_up ::
  "'c externals \<Rightarrow> 'c session \<Rightarrow> index_up_options \<Rightarrow> world \<Rightarrow> (error + resolved) \<times> world"
where
  "index_up ext s opts w =
     (case dockerCompose ext s
             ([''up'']
              @ getScaleArguments (or_default [] (index_up_options.scale opts))
              @ spread_if (truthy_boolean (index_up_options.detach opts)) [''--detach''])
             None w of
        (Inl e, w') \<Rightarrow> (Inl e, w')
      | (Inr r, w') \<Rightarrow>
          (if truthy_boolean (index_up_options.detach opts)
           then (case await_childProcess ext (childProcess r) w' of
                   (Inl e, w'') \<Rightarrow> (Inl e, w'')
                 | (Inr u, w'') \<Rightarrow> (Inr Void, w''))
           else (Inr Void, w')))"

section \<open>Sessions used as examples\<close>

text \<open>
  Collaborators that never fail: the structured configuration is its own YAML text,
  every write succeeds, paths are joined with a slash and every process exits normally.
\<close>

definition example_externals :: "string externals" where
  "example_externals =
     \<lparr>yaml_dump = (\<lambda>c. Inr c), fs_writeFile = (\<lambda>p c. None),
      path_join = (\<lambda>d n. d @ ''/'' @ n), childProcess_await = (\<lambda>h. None),
      env_DOCKER_COMPOSE_STDIO = None\<rparr>"

text \<open>The same collaborators on a file system that refuses every write.\<close>

definition readonly_externals :: "string externals" where
  "readonly_externals =
     example_externals\<lparr>fs_writeFile := (\<lambda>p c. Some (Error ''EACCES''))\<rparr>"

definition example_session :: "string session" where
  "example_session =
     \<lparr>file_option = Many [FilePath ''a.yml'', Inline ''services: {}'', FilePath ''b.yml''],
      directory = ''/tmp/dc'', projectName = Some ''demo''\<rparr>"

text \<open>
  Whether a promise of \<open>_getFile\<close> was rejected with a given error, at either point.
\<close>

fun rejected_with :: "'a promise \<Rightarrow> error \<Rightarrow> bool" where
  "rejected_with (Fulfilled v) e = False"
| "rejected_with (RejectedSync e') e = (e' = e)"
| "rejected_with (RejectedAsync e') e = (e' = e)"

section \<open>Facts about the file resolver\<close>

lemmas example_defs =
  example_session_def example_externals_def readonly_externals_def
  getGlobalArguments_def getFilesArguments_def getFiles_def normalized_files_def
  Promise_all_def nat_toString.simps digit_char_def Let_def truthy_string_def

lemma getFile_world_indep: "fst (getFile ext s f i w) = fst (getFile ext s f i [])"
  by (cases f) (auto simp: Let_def split: sum.splits option.splits)


lemma map_getFile_Cons:
  "map_getFile ext s (f # fs) i w =
     (fst (getFile ext s f i w)
        # fst (map_getFile ext s fs (Suc i) (snd (getFile ext s f i w))),
      snd (map_getFile ext s fs (Suc i) (snd (getFile ext s f i w))))"
  by (simp split: prod.splits)

lemma map_getFile_length: "length (fst (map_getFile ext s fs i w)) = length fs"
  by (induction fs arbitrary: i w) (simp_all add: map_getFile_Cons del: map_getFile.simps(2))


lemma map_getFile_nth:
  "j < length fs \<Longrightarrow>
   fst (map_getFile ext s fs i w) ! j = fst (getFile ext s (fs ! j) (i + j) [])"
proof (induction fs arbitrary: i w j)
  case Nil
  then show ?case by simp
next
  case (Cons f fs)
  show ?case
  proof (cases j)
    case 0
    then show ?thesis using getFile_world_indep [of ext s f i w]
      by (simp add: map_getFile_Cons del: map_getFile.simps(2))
  next
    case (Suc k)
    then have "k < length fs" using Cons.prems by simp
    then show ?thesis using Cons.IH [of k "Suc i"] Suc
      by (simp add: map_getFile_Cons del: map_getFile.simps(2))
  qed
qed

lemma first_RejectedSync_None_iff:
  "first_RejectedSync ps = None \<longleftrightarrow> (\<forall>e. RejectedSync e \<notin> set ps)"
  by (induction ps rule: first_RejectedSync.induct) auto

lemma first_RejectedAsync_None_iff:
  "first_RejectedAsync ps = None \<longleftrightarrow> (\<forall>e. RejectedAsync e \<notin> set ps)"
  by (induction ps rule: first_RejectedAsync.induct) auto

lemma first_RejectedSync_Some: "first_RejectedSync ps = Some e \<Longrightarrow> RejectedSync e \<in> set ps"
  by (induction ps rule: first_RejectedSync.induct) auto

lemma first_RejectedAsync_Some: "first_RejectedAsync ps = Some e \<Longrightarrow> RejectedAsync e \<in> set ps"
  by (induction ps rule: first_RejectedAsync.induct) auto

lemma all_fulfilled:
  "first_RejectedSync ps = None \<Longrightarrow> first_RejectedAsync ps = None \<Longrightarrow>
   ps = map Fulfilled (fulfilled_values ps)"
  by (induction ps rule: fulfilled_values.induct) auto

lemma Promise_all_Inr: "Promise_all ps = Inr vs \<Longrightarrow> ps = map Fulfilled vs"
  using all_fulfilled [of ps] by (auto simp: Promise_all_def split: option.splits)

lemma Promise_all_Inl:
  "Promise_all ps = Inl e \<Longrightarrow> RejectedSync e \<in> set ps \<or> RejectedAsync e \<in> set ps"
  by (auto simp: Promise_all_def split: option.splits
      dest: first_RejectedSync_Some first_RejectedAsync_Some)

lemma Promise_all_rejected:
  "RejectedSync e \<in> set ps \<or> RejectedAsync e \<in> set ps \<Longrightarrow> \<exists>e'. Promise_all ps = Inl e'"
  by (auto simp: Promise_all_def first_RejectedSync_None_iff first_RejectedAsync_None_iff
      split: option.splits)

lemma file_pairs_length: "length (concat (map (\<lambda>file. [a, file]) fs)) = 2 * length fs"
  by (induction fs) auto

lemma file_pairs_nth:
  "i < length fs \<Longrightarrow>
   concat (map (\<lambda>file. [a, file]) fs) ! (2 * i) = a \<and>
   concat (map (\<lambda>file. [a, file]) fs) ! (2 * i + 1) = fs ! i"
proof (induction fs arbitrary: i)
  case Nil
  then show ?case by simp
next
  case (Cons f fs)
  then show ?case by (cases i) auto
qed

lemma getFilesArguments_Inr:
  "fst (getFilesArguments ext s w) = Inr args \<Longrightarrow>
   \<exists>files. fst (getFiles ext s w) = Inr files \<and> args = concat (map (\<lambda>file. [''--file'', file]) files)"
  by (auto simp: getFilesArguments_def split: prod.splits sum.splits)

lemma getFiles_Inr:
  "fst (getFiles ext s w) = Inr files \<Longrightarrow>
   fst (map_getFile ext s (normalized_files s) 0 w) = map Fulfilled files"
  by (auto simp: getFiles_def split: prod.splits dest: Promise_all_Inr)

lemma getFile_Fulfilled:
  "fst (getFile ext s f i w) = Fulfilled v \<Longrightarrow>
   v = (case f of FilePath p \<Rightarrow> p
        | Inline c \<Rightarrow> path_join ext (directory s) (''docker-compose.'' @ nat_toString i @ ''.yml''))"
  by (cases f) (auto simp: Let_def split: sum.splits option.splits)

lemma rejected_with_iff:
  "rejected_with p e \<longleftrightarrow> p = RejectedSync e \<or> p = RejectedAsync e"
  by (cases p) auto




lemma map_getFile_rejected:
  assumes "i < length (normalized_files s)"
    and "rejected_with (fst (getFile ext s (normalized_files s ! i) i w0)) e"
  shows "\<exists>e'. Promise_all (fst (map_getFile ext s (normalized_files s) 0 w)) = Inl e'"
proof -
  let ?ps = "fst (map_getFile ext s (normalized_files s) 0 w)"
  have "?ps ! i = fst (getFile ext s (normalized_files s ! i) i [])"
    using map_getFile_nth [OF assms(1), of ext s 0 w] by simp
  also have "\<dots> = fst (getFile ext s (normalized_files s ! i) i w0)"
    using getFile_world_indep [of ext s _ i w0] by simp
  finally have "rejected_with (?ps ! i) e" using assms(2) by simp
  moreover have "i < length ?ps" using assms(1) by (simp add: map_getFile_length)
  ultimately have "RejectedSync e \<in> set ?ps \<or> RejectedAsync e \<in> set ?ps"
    by (metis nth_mem rejected_with_iff)
  then show ?thesis by (rule Promise_all_rejected)
qed

lemma Promise_all_Inl_getFile:
  assumes "Promise_all (fst (map_getFile ext s (normalized_files s) 0 w)) = Inl e'"
  shows "\<exists>j. j < length (normalized_files s) \<and>
             rejected_with (fst (getFile ext s (normalized_files s ! j) j w0)) e'"
proof -
  let ?ps = "fst (map_getFile ext s (normalized_files s) 0 w)"
  have "RejectedSync e' \<in> set ?ps \<or> RejectedAsync e' \<in> set ?ps"
    using Promise_all_Inl [OF assms] .
  then obtain j where j: "j < length ?ps" "rejected_with (?ps ! j) e'"
    by (metis in_set_conv_nth rejected_with_iff)
  then have jn: "j < length (normalized_files s)" by (simp add: map_getFile_length)
  have "?ps ! j = fst (getFile ext s (normalized_files s ! j) j [])"
    using map_getFile_nth [OF jn, of ext s 0 w] by simp
  also have "\<dots> = fst (getFile ext s (normalized_files s ! j) j w0)"
    using getFile_world_indep [of ext s _ j w0] by simp
  finally show ?thesis using j jn by auto
qed


section \<open>Facts about spawning\<close>

lemma command_spawns:
  "getGlobalArguments ext s w = (Inr g, w') \<Longrightarrow>
   command ext s args options w =
     (Inr \<lparr>childProcess = length (filter is_Execa w')\<rparr>,
      w' @ [Execa ''docker-compose'' (g @ args) (spawn_options ext options)])"
  by (simp add: command_def execa_def)

lemma up_arguments_no_options: "up_arguments up_no_options = [''up'', ''--detach'']"
  by (simp add: up_arguments_def up_no_options_def spread_if_def or_default_def
      truthy_boolean_def truthy_string_def truthy_number_def joinArgumentsRecord_def)

lemma up_trace:
  "getGlobalArguments ext s w = (Inr g, w') \<Longrightarrow>
   snd (up ext s opts execaOptions w) =
     w' @ [Execa ''docker-compose'' (g @ up_arguments opts) (spawn_options ext execaOptions)]
        @ (if or_default True (up_options.detach opts)
           then [Await (length (filter is_Execa w'))] else [])"
  by (simp add: up_def command_spawns await_childProcess_def split: option.splits)

lemma up_result:
  "getGlobalArguments ext s w = (Inr g, w') \<Longrightarrow>
   fst (up ext s opts execaOptions w) =
     (if or_default True (up_options.detach opts)
      then (case childProcess_await ext (length (filter is_Execa w')) of
              Some e \<Rightarrow> Inl e
            | None \<Rightarrow> Inr (Result \<lparr>childProcess = length (filter is_Execa w')\<rparr>))
      else Inr (Result \<lparr>childProcess = length (filter is_Execa w')\<rparr>))"
  by (simp add: up_def command_spawns await_childProcess_def split: option.splits)

lemma run_spawns:
  "getGlobalArguments ext s w = (Inr g, w') \<Longrightarrow>
   run ext s service cmd args opts execaOptions w =
     ((case childProcess_await ext (length (filter is_Execa w')) of
         Some e \<Rightarrow> Inl e | None \<Rightarrow> Inr Void),
      w' @ [Execa ''docker-compose'' (g @ run_arguments service cmd args opts)
              (spawn_options ext execaOptions),
            Await (length (filter is_Execa w'))])"
  by (simp add: run_def command_spawns await_childProcess_def split: option.splits)

lemma rm_spawns:
  "getGlobalArguments ext s w = (Inr g, w') \<Longrightarrow>
   rm ext s opts execaOptions w =
     ((case childProcess_await ext (length (filter is_Execa w')) of
         Some e \<Rightarrow> Inl e | None \<Rightarrow> Inr Void),
      w' @ [Execa ''docker-compose'' (g @ rm_arguments opts) (spawn_options ext execaOptions),
            Await (length (filter is_Execa w'))])"
  by (simp add: rm_def command_spawns await_childProcess_def split: option.splits)

lemma down_spawns:
  "getGlobalArguments ext s w = (Inr g, w') \<Longrightarrow>
   down ext s opts options w =
     ((case childProcess_await ext (length (filter is_Execa w')) of
         Some e \<Rightarrow> Inl e | None \<Rightarrow> Inr Void),
      w' @ [Execa ''docker-compose'' (g @ down_arguments opts) (spawn_options ext options),
            Await (length (filter is_Execa w'))])"
  by (simp add: down_def command_spawns await_childProcess_def split: option.splits)

text \<open>Whatever happens, \<open>run\<close>, \<open>rm\<close> and \<open>down\<close> never resolve to a result object.\<close>

lemma run_never_Result: "fst (run ext s service cmd args opts execaOptions w) \<noteq> Inr (Result r)"
  by (simp add: run_def split: prod.splits sum.splits)

lemma rm_never_Result: "fst (rm ext s opts execaOptions w) \<noteq> Inr (Result r)"
  by (simp add: rm_def split: prod.splits sum.splits)

lemma down_never_Result: "fst (down ext s opts options w) \<noteq> Inr (Result r)"
  by (simp add: down_def split: prod.splits sum.splits)

lemma example_getGlobalArguments:
  "getGlobalArguments example_externals example_session [] =
     (Inr [''--project-name'', ''demo'', ''--file'', ''a.yml'',
           ''--file'', ''/tmp/dc/docker-compose.1.yml'', ''--file'', ''b.yml''],
      [WriteFile ''/tmp/dc/docker-compose.1.yml'' ''services: {}''])"
  by (simp add: example_defs)

lemma example_childProcess_await: "childProcess_await example_externals h = None"
  by (simp add: example_externals_def)

lemma getFilesArguments_head:
  "fst (getFilesArguments ext s w) = Inr fa \<Longrightarrow> fa = [] \<or> hd fa = ''--file''"
proof -
  assume "fst (getFilesArguments ext s w) = Inr fa"
  then obtain files where "fa = concat (map (\<lambda>file. [''--file'', file]) files)"
    using getFilesArguments_Inr by blast
  then show ?thesis by (cases files) auto
qed

section \<open>Facts about the argument vectors\<close>

lemmas argument_defs =
  spread_if_def or_default_def truthy_boolean_def truthy_string_def truthy_number_def
  joinArgumentsRecord_def

lemma number_toString_0: "number_toString 0 = ''0''"
  by (simp add: number_toString_def nat_toString.simps digit_char_def)

lemma number_toString_5: "number_toString 5 = ''5''"
  by (simp add: number_toString_def nat_toString.simps digit_char_def)

lemma run_arguments_env_example:
  "run_arguments ''svc'' None [''--flag'']
     (run_no_options\<lparr>env := Some [(''A'', Str ''1''), (''B'', Str ''2'')]\<rparr>) =
   [''run'', ''--detach'', ''--env'', ''A=1'', ''--env'', ''B=2'', ''svc'', ''--flag'']"
  by (simp add: run_arguments_def run_no_options_def argument_defs)

lemma joinArgumentsRecord_length:
  "length (joinArgumentsRecord option separator entries) = 2 * length entries"
  by (induction entries) (auto simp: joinArgumentsRecord_def)

text \<open>
  In \<^verbatim>\<open>src/index.ts\<close> the option \<open>detach\<close> of \<open>up\<close> has no default: there \<open>up({})\<close> spawns
  \<open>up\<close> without \<open>--detach\<close>, does not await the process and resolves to no value.
\<close>

lemma index_up_no_options:
  "getGlobalArguments ext s w = (Inr g, w') \<Longrightarrow>
   index_up ext s \<lparr>index_up_options.detach = None, index_up_options.scale = None\<rparr> w =
     (Inr Void, w' @ [Execa ''docker-compose'' (g @ [''up'']) (spawn_options ext None)])"
  by (simp add: index_up_def dockerCompose_def execa_def getScaleArguments_def
      or_default_def spread_if_def truthy_boolean_def)

section \<open>The file arguments\<close>

text \<open>
  The resolver returns exactly when no promise of \<open>_getFile\<close> is rejected.
\<close>

lemma getFilesArguments_returns_iff:
  "(\<exists>args. fst (getFilesArguments ext s w) = Inr args) \<longleftrightarrow>
   (\<forall>i < length (normalized_files s). \<forall>e.
      \<not> rejected_with (fst (getFile ext s (normalized_files s ! i) i w)) e)"
proof
  assume "\<exists>args. fst (getFilesArguments ext s w) = Inr args"
  then obtain args where a: "fst (getFilesArguments ext s w) = Inr args" by blast
  show "\<forall>i < length (normalized_files s). \<forall>e.
      \<not> rejected_with (fst (getFile ext s (normalized_files s ! i) i w)) e"
  proof (intro allI impI notI)
    fix i e
    assume "i < length (normalized_files s)"
      and "rejected_with (fst (getFile ext s (normalized_files s ! i) i w)) e"
    then obtain e' where "Promise_all (fst (map_getFile ext s (normalized_files s) 0 w)) = Inl e'"
      using map_getFile_rejected by blast
    then show False using a
      by (auto simp: getFilesArguments_def getFiles_def split: prod.splits sum.splits)
  qed
next
  assume none: "\<forall>i < length (normalized_files s). \<forall>e.
      \<not> rejected_with (fst (getFile ext s (normalized_files s ! i) i w)) e"
  have "\<exists>vs. Promise_all (fst (map_getFile ext s (normalized_files s) 0 w)) = Inr vs"
  proof (cases "Promise_all (fst (map_getFile ext s (normalized_files s) 0 w))")
    case (Inl e')
    then show ?thesis using Promise_all_Inl_getFile [OF Inl, of w] none by blast
  next
    case (Inr vs)
    then show ?thesis by blast
  qed
  then show "\<exists>args. fst (getFilesArguments ext s w) = Inr args"
    by (auto simp: getFilesArguments_def getFiles_def split: prod.splits sum.splits)
qed

text \<open>
  Claim C1. Whenever \<open>_getFilesArguments\<close> returns, for a session whose configuration
  normalizes to a list of \<open>N\<close> elements, it returns \<open>2 * N\<close> tokens: the token at position
  \<open>2 * i\<close> is \<open>--file\<close> and the token after it is the path of element \<open>i\<close>, which is the
  string itself for a string element and \<open>path.join\<close> of the working directory and
  \<open>docker-compose.<i>.yml\<close> for a structured element.
\<close>

theorem getFilesArguments_pairs:
  assumes "fst (getFilesArguments ext s w) = Inr args"
  shows "length args = 2 * length (normalized_files s) \<and>
         (\<forall>i < length (normalized_files s).
            args ! (2 * i) = ''--file'' \<and>
            args ! (2 * i + 1) =
              (case normalized_files s ! i of
                 FilePath p \<Rightarrow> p
               | Inline c \<Rightarrow>
                   path_join ext (directory s)
                     (''docker-compose.'' @ nat_toString i @ ''.yml'')))"
proof -
  obtain files where files: "fst (getFiles ext s w) = Inr files"
    and args: "args = concat (map (\<lambda>file. [''--file'', file]) files)"
    using getFilesArguments_Inr [OF assms] by blast
  have ps: "fst (map_getFile ext s (normalized_files s) 0 w) = map Fulfilled files"
    using getFiles_Inr [OF files] .
  have len: "length files = length (normalized_files s)"
    using map_getFile_length [of ext s "normalized_files s" 0 w] ps by simp
  have nth: "files ! i =
      (case normalized_files s ! i of
         FilePath p \<Rightarrow> p
       | Inline c \<Rightarrow>
           path_join ext (directory s) (''docker-compose.'' @ nat_toString i @ ''.yml''))"
    if "i < length (normalized_files s)" for i
  proof -
    have "fst (getFile ext s (normalized_files s ! i) i []) = Fulfilled (files ! i)"
      using map_getFile_nth [OF that, of ext s 0 w] ps that len by simp
    then show ?thesis by (rule getFile_Fulfilled)
  qed
  show ?thesis
    using len nth file_pairs_nth [of _ files "''--file''"]
    by (simp add: args file_pairs_length)
qed

theorem getFilesArguments_pairs_witness:
  "fst (getFilesArguments example_externals example_session []) =
     Inr [''--file'', ''a.yml'', ''--file'', ''/tmp/dc/docker-compose.1.yml'',
          ''--file'', ''b.yml''] \<and>
   length [''--file'', ''a.yml'', ''--file'', ''/tmp/dc/docker-compose.1.yml'',
          ''--file'', ''b.yml''] = 2 * length (normalized_files example_session) \<and>
   [''--file'', ''a.yml'', ''--file'', ''/tmp/dc/docker-compose.1.yml'',
          ''--file'', ''b.yml''] ! (2 * 1) = ''--file'' \<and>
   [''--file'', ''a.yml'', ''--file'', ''/tmp/dc/docker-compose.1.yml'',
          ''--file'', ''b.yml''] ! (2 * 1 + 1) =
     path_join example_externals (directory example_session)
       (''docker-compose.'' @ nat_toString 1 @ ''.yml'')"
proof -
  have h: "fst (getFilesArguments example_externals example_session []) =
     Inr [''--file'', ''a.yml'', ''--file'', ''/tmp/dc/docker-compose.1.yml'',
          ''--file'', ''b.yml'']"
    by (simp add: example_defs)
  have i: "(1::nat) < length (normalized_files example_session)"
    by (simp add: example_defs)
  have e: "normalized_files example_session ! 1 = Inline ''services: {}''"
    by (simp add: example_defs)
  note inst = getFilesArguments_pairs [OF h]
  have len: "length [''--file'', ''a.yml'', ''--file'', ''/tmp/dc/docker-compose.1.yml'',
          ''--file'', ''b.yml''] = 2 * length (normalized_files example_session)"
    using inst by (rule conjunct1)
  have at: "[''--file'', ''a.yml'', ''--file'', ''/tmp/dc/docker-compose.1.yml'',
          ''--file'', ''b.yml''] ! (2 * 1) = ''--file'' \<and>
       [''--file'', ''a.yml'', ''--file'', ''/tmp/dc/docker-compose.1.yml'',
          ''--file'', ''b.yml''] ! (2 * 1 + 1) =
         (case normalized_files example_session ! 1 of
            FilePath p \<Rightarrow> p
          | Inline c \<Rightarrow>
              path_join example_externals (directory example_session)
                (''docker-compose.'' @ nat_toString 1 @ ''.yml''))"
    using inst i by blast
  show ?thesis
    using h len at by (simp only: e file_entry.case)
qed

section \<open>The subcommand \<open>up\<close>\<close>

text \<open>
  Claim C2, as the code has it. In the class with \<open>command\<close> and \<open>run\<close>, where \<open>detach\<close> is
  true by default, \<open>up({})\<close> passes the array \<open>['up', '--detach']\<close> to \<open>command\<close>, with no
  other flag: once the global arguments \<open>g\<close> are resolved, the process is spawned with \<open>g\<close>
  followed by \<open>up\<close>, \<open>--detach\<close>, and the last thing the call does is to await that very
  process. In the class of \<^verbatim>\<open>src/index.ts\<close>, where \<open>detach\<close> has no default, \<open>up({})\<close> spawns
  the process with \<open>g\<close> followed by \<open>up\<close> alone and returns without awaiting it.
\<close>

theorem up_no_options_detached:
  assumes "getGlobalArguments ext s w = (Inr g, w')"
  shows "up_arguments up_no_options = [''up'', ''--detach''] \<and>
         snd (up ext s up_no_options execaOptions w) =
           w' @ [Execa ''docker-compose'' (g @ [''up'', ''--detach''])
                   (spawn_options ext execaOptions),
                 Await (length (filter is_Execa w'))] \<and>
         index_up ext s \<lparr>index_up_options.detach = None, index_up_options.scale = None\<rparr> w =
           (Inr Void, w' @ [Execa ''docker-compose'' (g @ [''up'']) (spawn_options ext None)])"
proof (intro conjI)
  show "up_arguments up_no_options = [''up'', ''--detach'']"
    by (rule up_arguments_no_options)
  show "snd (up ext s up_no_options execaOptions w) =
           w' @ [Execa ''docker-compose'' (g @ [''up'', ''--detach''])
                   (spawn_options ext execaOptions),
                 Await (length (filter is_Execa w'))]"
    using up_trace [OF assms, of up_no_options execaOptions]
    by (simp add: up_arguments_no_options) (simp add: up_no_options_def or_default_def)
  show "index_up ext s \<lparr>index_up_options.detach = None, index_up_options.scale = None\<rparr> w =
           (Inr Void, w' @ [Execa ''docker-compose'' (g @ [''up'']) (spawn_options ext None)])"
    using assms by (rule index_up_no_options)
qed

theorem up_no_options_detached_witness:
  "up_arguments up_no_options = [''up'', ''--detach''] \<and>
   snd (up example_externals example_session up_no_options None []) =
     [WriteFile ''/tmp/dc/docker-compose.1.yml'' ''services: {}'',
      Execa ''docker-compose''
        ([''--project-name'', ''demo'', ''--file'', ''a.yml'',
           ''--file'', ''/tmp/dc/docker-compose.1.yml'', ''--file'', ''b.yml'', ''up'', ''--detach''])
        (spawn_options example_externals None),
      Await 0] \<and>
   index_up example_externals example_session
     \<lparr>index_up_options.detach = None, index_up_options.scale = None\<rparr> [] =
     (Inr Void,
      [WriteFile ''/tmp/dc/docker-compose.1.yml'' ''services: {}'',
       Execa ''docker-compose''
         ([''--project-name'', ''demo'', ''--file'', ''a.yml'',
            ''--file'', ''/tmp/dc/docker-compose.1.yml'', ''--file'', ''b.yml'', ''up''])
         (spawn_options example_externals None)])"
  using up_no_options_detached [OF example_getGlobalArguments, of None] by simp

text \<open>
  Claim C2 as stated fails on the \<open>up\<close> of \<^verbatim>\<open>src/index.ts\<close>: \<open>up({})\<close> spawns the process
  without \<open>--detach\<close>, the trace ends at the spawn with no wait, and the call resolves to
  no value.
\<close>

theorem index_up_no_options_not_detached:
  "index_up example_externals example_session
     \<lparr>index_up_options.detach = None, index_up_options.scale = None\<rparr> [] =
     (Inr Void,
      [WriteFile ''/tmp/dc/docker-compose.1.yml'' ''services: {}'',
       Execa ''docker-compose''
         ([''--project-name'', ''demo'', ''--file'', ''a.yml'',
            ''--file'', ''/tmp/dc/docker-compose.1.yml'', ''--file'', ''b.yml'', ''up''])
         (spawn_options example_externals None)])"
  using index_up_no_options [OF example_getGlobalArguments] by simp

text \<open>
  Claim C3. Once the global arguments are resolved, \<open>up\<close> spawns the process and then
  awaits it unless \<open>detach\<close> is \<open>false\<close>: the wait is among the events of the call if and
  only if \<open>detach\<close> is true or absent. With \<open>detach: false\<close> the call ends at the spawn and
  returns the result object holding the child process.
\<close>

theorem up_awaits_iff_detach:
  assumes "getGlobalArguments ext s w = (Inr g, w')"
  shows "snd (up ext s opts execaOptions w) =
           w' @ [Execa ''docker-compose'' (g @ up_arguments opts)
                   (spawn_options ext execaOptions)]
              @ (if up_options.detach opts = Some False then []
                 else [Await (length (filter is_Execa w'))]) \<and>
         (Await (length (filter is_Execa w'))
            \<in> set (drop (length w') (snd (up ext s opts execaOptions w)))
          \<longleftrightarrow> up_options.detach opts \<noteq> Some False) \<and>
         (up_options.detach opts = Some False \<longrightarrow>
            fst (up ext s opts execaOptions w) =
              Inr (Result \<lparr>childProcess = length (filter is_Execa w')\<rparr>))"
  using up_trace [OF assms, of opts execaOptions] up_result [OF assms, of opts execaOptions]
  by (cases "up_options.detach opts") (auto simp: or_default_def)

theorem up_awaits_iff_detach_witness:
  "snd (up example_externals example_session
          (up_no_options\<lparr>up_options.detach := Some False\<rparr>) None []) =
     [WriteFile ''/tmp/dc/docker-compose.1.yml'' ''services: {}'',
      Execa ''docker-compose''
        ([''--project-name'', ''demo'', ''--file'', ''a.yml'',
           ''--file'', ''/tmp/dc/docker-compose.1.yml'', ''--file'', ''b.yml'', ''up''])
        (spawn_options example_externals None)] \<and>
   fst (up example_externals example_session
          (up_no_options\<lparr>up_options.detach := Some False\<rparr>) None []) =
     Inr (Result \<lparr>childProcess = 0\<rparr>)"
proof -
  have a: "up_arguments (up_no_options\<lparr>up_options.detach := Some False\<rparr>) = [''up'']"
    by (simp add: up_arguments_def up_no_options_def argument_defs)
  have d: "up_options.detach (up_no_options\<lparr>up_options.detach := Some False\<rparr>) = Some False"
    by simp
  show ?thesis
    using up_awaits_iff_detach [OF example_getGlobalArguments,
        of "up_no_options\<lparr>up_options.detach := Some False\<rparr>" None]
    by (simp only: a d) simp
qed

section \<open>What the public methods return\<close>

text \<open>
  Claim C4, as the code has it. Once the global arguments are resolved and the spawned
  process ends normally: \<open>command\<close> returns the handle of the process without awaiting it,
  \<open>up\<close> returns the handle, and \<open>run\<close>, \<open>rm\<close> and \<open>down\<close> await the process and resolve to no
  value.
\<close>

theorem handles_returned:
  assumes "getGlobalArguments ext s w = (Inr g, w')"
    and "childProcess_await ext (length (filter is_Execa w')) = None"
  shows "command ext s args execaOptions w =
           (Inr \<lparr>childProcess = length (filter is_Execa w')\<rparr>,
            w' @ [Execa ''docker-compose'' (g @ args) (spawn_options ext execaOptions)]) \<and>
         fst (up ext s upOptions execaOptions w) =
           Inr (Result \<lparr>childProcess = length (filter is_Execa w')\<rparr>) \<and>
         run ext s service cmd args runOptions execaOptions w =
           (Inr Void,
            w' @ [Execa ''docker-compose'' (g @ run_arguments service cmd args runOptions)
                    (spawn_options ext execaOptions),
                  Await (length (filter is_Execa w'))]) \<and>
         rm ext s rmOptions execaOptions w =
           (Inr Void,
            w' @ [Execa ''docker-compose'' (g @ rm_arguments rmOptions)
                    (spawn_options ext execaOptions),
                  Await (length (filter is_Execa w'))]) \<and>
         down ext s downOptions execaOptions w =
           (Inr Void,
            w' @ [Execa ''docker-compose'' (g @ down_arguments downOptions)
                    (spawn_options ext execaOptions),
                  Await (length (filter is_Execa w'))])"
  using assms
  by (simp add: command_spawns up_result run_spawns rm_spawns down_spawns)

theorem handles_returned_witness:
  "command example_externals example_session [''ps''] None [] =
     (Inr \<lparr>childProcess = 0\<rparr>,
      [WriteFile ''/tmp/dc/docker-compose.1.yml'' ''services: {}'',
       Execa ''docker-compose''
         ([''--project-name'', ''demo'', ''--file'', ''a.yml'',
           ''--file'', ''/tmp/dc/docker-compose.1.yml'', ''--file'', ''b.yml'', ''ps''])
         (spawn_options example_externals None)]) \<and>
   fst (up example_externals example_session up_no_options None []) =
     Inr (Result \<lparr>childProcess = 0\<rparr>) \<and>
   fst (rm example_externals example_session
          \<lparr>stop = None, force = None, rm_options.volumes = None\<rparr> None []) = Inr Void"
  using handles_returned [OF example_getGlobalArguments example_childProcess_await,
      of "[''ps'']" None up_no_options "''svc''" None run_no_options
         "\<lparr>stop = None, force = None, rm_options.volumes = None\<rparr>"
         "\<lparr>down_options.removeOrphans = None, rmi = None, down_options.timeout = None,
           down_options.volumes = None\<rparr>"]
  by simp

text \<open>
  Claim C4 as stated fails: \<open>run\<close>, \<open>rm\<close> and \<open>down\<close> hand no handle to their caller.
\<close>

theorem methods_without_handle:
  "fst (run example_externals example_session ''svc'' None [] run_no_options None []) = Inr Void \<and>
   fst (rm example_externals example_session
          \<lparr>stop = None, force = None, rm_options.volumes = None\<rparr> None []) = Inr Void \<and>
   fst (down example_externals example_session
          \<lparr>down_options.removeOrphans = None, rmi = None, down_options.timeout = None,
           down_options.volumes = None\<rparr> None []) = Inr Void"
  by (simp add: run_spawns [OF example_getGlobalArguments]
      rm_spawns [OF example_getGlobalArguments] down_spawns [OF example_getGlobalArguments]
      example_childProcess_await)

section \<open>The global arguments\<close>

text \<open>
  Claim C5, as the code has it. When the file arguments are resolved, the global
  arguments are \<open>--project-name\<close>, the name and then the file arguments if the session has
  a project name that is not the empty string, and the file arguments alone otherwise;
  they begin with \<open>--project-name\<close> if and only if the session has a non-empty project
  name.
\<close>

theorem getGlobalArguments_projectName:
  assumes "fst (getFilesArguments ext s w) = Inr filesArguments"
  shows "((\<exists>n. projectName s = Some n \<and> n \<noteq> []) \<longrightarrow>
            fst (getGlobalArguments ext s w) =
              Inr (''--project-name'' # the (projectName s) # filesArguments)) \<and>
         (\<not> (\<exists>n. projectName s = Some n \<and> n \<noteq> []) \<longrightarrow>
            fst (getGlobalArguments ext s w) = Inr filesArguments) \<and>
         ((\<exists>rest. fst (getGlobalArguments ext s w) = Inr (''--project-name'' # rest))
            \<longleftrightarrow> (\<exists>n. projectName s = Some n \<and> n \<noteq> []))"
proof -
  have t: "truthy_string (projectName s) \<longleftrightarrow> (\<exists>n. projectName s = Some n \<and> n \<noteq> [])"
    by (cases "projectName s") (simp_all add: truthy_string_def)
  have g: "fst (getGlobalArguments ext s w) =
      Inr ((if truthy_string (projectName s)
            then [''--project-name'', the (projectName s)] else []) @ filesArguments)"
    using assms by (cases "getFilesArguments ext s w") (simp add: getGlobalArguments_def)
  have h: "filesArguments = [] \<or> hd filesArguments = ''--file''"
    using getFilesArguments_head [OF assms] .
  show ?thesis
  proof (cases "truthy_string (projectName s)")
    case True
    then show ?thesis using g t by simp
  next
    case False
    then have "fst (getGlobalArguments ext s w) = Inr filesArguments" using g by simp
    moreover have "\<not> (\<exists>rest. filesArguments = ''--project-name'' # rest)" using h by auto
    ultimately show ?thesis using False t by simp
  qed
qed

theorem getGlobalArguments_projectName_witness:
  "fst (getGlobalArguments example_externals example_session []) =
     Inr (''--project-name'' # ''demo'' #
          [''--file'', ''a.yml'', ''--file'', ''/tmp/dc/docker-compose.1.yml'',
           ''--file'', ''b.yml''])"
proof -
  have h: "fst (getFilesArguments example_externals example_session []) =
     Inr [''--file'', ''a.yml'', ''--file'', ''/tmp/dc/docker-compose.1.yml'',
          ''--file'', ''b.yml'']"
    by (simp add: example_defs)
  have n: "\<exists>n. projectName example_session = Some n \<and> n \<noteq> []"
    by (simp add: example_session_def)
  have p: "the (projectName example_session) = ''demo''"
    by (simp add: example_session_def)
  show ?thesis
    using getGlobalArguments_projectName [OF h] n p by simp
qed

text \<open>
  Claim C5 as stated fails for a session configured with the empty string as its project
  name: the name is configured, and the global arguments are the file pair alone.
\<close>

theorem empty_projectName_omitted:
  "projectName \<lparr>file_option = Single (FilePath ''a.yml''), directory = ''/tmp/dc'',
                projectName = Some ''''\<rparr> \<noteq> None \<and>
   fst (getGlobalArguments example_externals
          \<lparr>file_option = Single (FilePath ''a.yml''), directory = ''/tmp/dc'',
           projectName = Some ''''\<rparr> []) = Inr [''--file'', ''a.yml'']"
  by (simp add: example_defs)

section \<open>The subcommand \<open>run\<close>\<close>

text \<open>
  Claim C6. For \<open>run('svc', undefined, ['--flag'], { env: { A: '1', B: '2' } })\<close> the array
  passed to \<open>command\<close> is \<open>run\<close>, \<open>--detach\<close>, then \<open>--env\<close>, \<open>A=1\<close>, \<open>--env\<close>, \<open>B=2\<close> in the
  order of the entries, then the positional arguments \<open>svc\<close> and \<open>--flag\<close>; the absent
  command gives no token. The process is spawned with the global arguments followed by
  that array.
\<close>

theorem run_env_example:
  assumes "getGlobalArguments ext s w = (Inr g, w')"
  shows "run_arguments ''svc'' None [''--flag'']
           (run_no_options\<lparr>env := Some [(''A'', Str ''1''), (''B'', Str ''2'')]\<rparr>) =
         [''run'', ''--detach'', ''--env'', ''A=1'', ''--env'', ''B=2'', ''svc'', ''--flag''] \<and>
         snd (run ext s ''svc'' None [''--flag'']
                (run_no_options\<lparr>env := Some [(''A'', Str ''1''), (''B'', Str ''2'')]\<rparr>)
                execaOptions w) =
         w' @ [Execa ''docker-compose''
                 (g @ [''run'', ''--detach'', ''--env'', ''A=1'', ''--env'', ''B=2'',
                       ''svc'', ''--flag''])
                 (spawn_options ext execaOptions),
               Await (length (filter is_Execa w'))]"
  by (simp only: run_spawns [OF assms] run_arguments_env_example snd_conv simp_thms)

theorem run_env_example_witness:
  "snd (run example_externals example_session ''svc'' None [''--flag'']
          (run_no_options\<lparr>env := Some [(''A'', Str ''1''), (''B'', Str ''2'')]\<rparr>) None []) =
     [WriteFile ''/tmp/dc/docker-compose.1.yml'' ''services: {}'',
      Execa ''docker-compose''
        ([''--project-name'', ''demo'', ''--file'', ''a.yml'',
           ''--file'', ''/tmp/dc/docker-compose.1.yml'', ''--file'', ''b.yml'', ''run'', ''--detach'', ''--env'', ''A=1'', ''--env'', ''B=2'',
           ''svc'', ''--flag''])
        (spawn_options example_externals None),
      Await 0]"
  using run_env_example [OF example_getGlobalArguments, of None] by simp

text \<open>
  Claim C10. In \<open>run\<close> the empty string as command is omitted as an absent command is:
  both calls build the same array and behave the same.
\<close>

theorem run_empty_command_omitted:
  "run_arguments service (Some '''') args opts = run_arguments service None args opts \<and>
   run ext s service (Some '''') args opts execaOptions w =
     run ext s service None args opts execaOptions w"
  by (simp add: run_def run_arguments_def truthy_string_def spread_if_def)

theorem run_empty_command_omitted_witness:
  "run_arguments ''svc'' (Some '''') [''--flag''] run_no_options =
     run_arguments ''svc'' None [''--flag''] run_no_options \<and>
   run example_externals example_session ''svc'' (Some '''') [''--flag''] run_no_options None [] =
     run example_externals example_session ''svc'' None [''--flag''] run_no_options None []"
  using run_empty_command_omitted
    [of "''svc''" "[''--flag'']" run_no_options example_externals example_session None "[]"]
  by simp

section \<open>The subcommand \<open>down\<close> and the value zero\<close>

text \<open>
  Claim C7. \<open>down({ timeout: 5 })\<close> builds \<open>down\<close>, \<open>--timeout\<close>, \<open>5\<close>. Whatever
  \<open>removeOrphans\<close> and \<open>rmi\<close> are, the pair \<open>--timeout\<close>, \<open>5\<close> comes after their flags, and
  the joined token \<open>--timeout=5\<close> is not in the array.
\<close>

theorem down_timeout_two_tokens:
  "down_arguments \<lparr>down_options.removeOrphans = None, rmi = None,
                   down_options.timeout = Some 5, down_options.volumes = None\<rparr> =
     [''down'', ''--timeout'', ''5''] \<and>
   down_arguments \<lparr>down_options.removeOrphans = orphans, rmi = images,
                   down_options.timeout = Some 5, down_options.volumes = None\<rparr> =
     [''down'']
     @ (if orphans = Some True then [''--remove-orphans''] else [])
     @ (case images of None \<Rightarrow> [] | Some Local \<Rightarrow> [''--rmi'', ''local'']
        | Some All \<Rightarrow> [''--rmi'', ''all''])
     @ [''--timeout'', ''5''] \<and>
   ''--timeout=5'' \<notin> set (down_arguments
       \<lparr>down_options.removeOrphans = orphans, rmi = images,
        down_options.timeout = Some 5, down_options.volumes = None\<rparr>)"
  by (auto simp: down_arguments_def argument_defs number_toString_5
      split: option.splits rmi_mode.splits)

theorem down_timeout_two_tokens_witness:
  "down_arguments \<lparr>down_options.removeOrphans = Some True, rmi = Some All,
                   down_options.timeout = Some 5, down_options.volumes = None\<rparr> =
     [''down'', ''--remove-orphans'', ''--rmi'', ''all'', ''--timeout'', ''5'']"
  using down_timeout_two_tokens [of "Some True" "Some All"] by simp

text \<open>
  Claim C8. A map-valued option gives two tokens for each of its entries, whatever their
  values, and an entry whose value is the number \<open>0\<close> is emitted like any other entry, at
  its place among the entries (so \<open>scale: { svc: 0 }\<close> gives \<open>--scale\<close>, \<open>svc=0\<close>), whereas the timeout \<open>0\<close> of \<open>up\<close> and of \<open>down\<close> gives the array that an absent
  timeout gives.
\<close>

theorem zero_entry_emitted_zero_timeout_omitted:
  "length (joinArgumentsRecord option separator entries) = 2 * length entries \<and>
   joinArgumentsRecord option separator (before @ [(key, Num 0)] @ after) =
     joinArgumentsRecord option separator before
     @ [option, key @ separator @ ''0'']
     @ joinArgumentsRecord option separator after \<and>
   up_arguments (up_no_options\<lparr>up_options.scale := Some [(''svc'', Num 0)]\<rparr>) =
     [''up'', ''--detach'', ''--scale'', ''svc=0''] \<and>
   up_arguments (upOptions\<lparr>up_options.timeout := Some 0\<rparr>) =
     up_arguments (upOptions\<lparr>up_options.timeout := None\<rparr>) \<and>
   down_arguments (downOptions\<lparr>down_options.timeout := Some 0\<rparr>) =
     down_arguments (downOptions\<lparr>down_options.timeout := None\<rparr>)"
proof (intro conjI)
  show "length (joinArgumentsRecord option separator entries) = 2 * length entries"
    by (rule joinArgumentsRecord_length)
  show "joinArgumentsRecord option separator (before @ [(key, Num 0)] @ after) =
     joinArgumentsRecord option separator before
     @ [option, key @ separator @ ''0'']
     @ joinArgumentsRecord option separator after"
    by (simp add: joinArgumentsRecord_def number_toString_0)
  show "up_arguments (up_no_options\<lparr>up_options.scale := Some [(''svc'', Num 0)]\<rparr>) =
     [''up'', ''--detach'', ''--scale'', ''svc=0'']"
    by (simp add: up_arguments_def up_no_options_def argument_defs number_toString_0)
  show "up_arguments (upOptions\<lparr>up_options.timeout := Some 0\<rparr>) =
     up_arguments (upOptions\<lparr>up_options.timeout := None\<rparr>)"
    by (simp add: up_arguments_def truthy_number_def spread_if_def)
  show "down_arguments (downOptions\<lparr>down_options.timeout := Some 0\<rparr>) =
     down_arguments (downOptions\<lparr>down_options.timeout := None\<rparr>)"
    by (simp add: down_arguments_def truthy_number_def spread_if_def)
qed

theorem zero_entry_emitted_zero_timeout_omitted_witness:
  "joinArgumentsRecord ''--scale'' ''='' ([(''web'', Num 2)] @ [(''svc'', Num 0)] @ []) =
     [''--scale'', ''web=2'', ''--scale'', ''svc=0''] \<and>
   up_arguments (up_no_options\<lparr>up_options.timeout := Some 0\<rparr>) = [''up'', ''--detach''] \<and>
   down_arguments
     (\<lparr>down_options.removeOrphans = None, rmi = None, down_options.timeout = None,
       down_options.volumes = None\<rparr>\<lparr>down_options.timeout := Some 0\<rparr>) = [''down'']"
proof -
  have j: "joinArgumentsRecord ''--scale'' ''='' [(''web'', Num 2)] = [''--scale'', ''web=2'']"
    by (simp add: joinArgumentsRecord_def number_toString_def nat_toString.simps digit_char_def)
  have u: "up_arguments (up_no_options\<lparr>up_options.timeout := None\<rparr>) = [''up'', ''--detach'']"
    by (simp add: up_arguments_def up_no_options_def argument_defs)
  have d: "down_arguments
     (\<lparr>down_options.removeOrphans = None, rmi = None, down_options.timeout = None,
       down_options.volumes = None\<rparr>\<lparr>down_options.timeout := None\<rparr>) = [''down'']"
    by (simp add: down_arguments_def argument_defs)
  show ?thesis
    using zero_entry_emitted_zero_timeout_omitted
      [of "''--scale''" "''=''" "[]" "[(''web'', Num 2)]" "''svc''" "[]" up_no_options
          "\<lparr>down_options.removeOrphans = None, rmi = None, down_options.timeout = None,
            down_options.volumes = None\<rparr>"]
    by (simp only: j u d) (simp add: joinArgumentsRecord_def)
qed

section \<open>Failures of the file resolver\<close>



end
